theory Spec2Isabelle
  imports Main
begin

section \<open>Publication and access-level filters of nodeshot.core.base.managers\<close>

text \<open>
  The module adds three filters to the query sets and managers of the object-relational
  mapper (\<^verbatim>\<open>published\<close>, \<^verbatim>\<open>access_level_up_to\<close>, \<^verbatim>\<open>accessible_to\<close>) and one attribute
  hook (\<^verbatim>\<open>ExtendedManagerMixin.__getattr__\<close>). Every exception the Python can raise
  on these paths is a value of \<open>error\<close>; a call returns \<open>error + result\<close> with \<open>Inl\<close>
  for the exception.
\<close>

subsection \<open>Data\<close>

datatype error =
    ValueError        \<comment> \<open>the mapper's "Cannot use None as a query value"\<close>
  | AssertionError    \<comment> \<open>the mapper's "Cannot filter a query once a slice has been taken"\<close>
  | IndexError        \<comment> \<open>index 0 of an empty query set\<close>
  | AttributeError    \<comment> \<open>attribute lookup failed\<close>
  | TypeError         \<comment> \<open>builtin \<^verbatim>\<open>getattr\<close> called with too many arguments\<close>
  | DoesNotExist      \<comment> \<open>\<^verbatim>\<open>User.objects.get\<close> found no row\<close>
  | NameError         \<comment> \<open>\<^verbatim>\<open>User\<close> was not imported (lines 5-7)\<close>

text \<open>A persisted record: its primary key and the two columns the filters read.\<close>

record item =
  pk :: int
  is_published :: bool
  access_level :: int

text \<open>
  \<open>self\<close> of a mixin method is either a manager (the facade over all rows of its model)
  or a query set (the rows it yields when evaluated, in database order). A query set of
  which a slice has been taken (\<^verbatim>\<open>qs[:k]\<close>) still yields rows, but the mapper refuses to
  filter it any further; it is a form of its own.
\<close>

datatype collection =
    Manager "item list"
  | QuerySet "item list"
  | SlicedQuerySet "item list"

fun records :: "collection \<Rightarrow> item list" where
  "records (Manager rows) = rows"
| "records (QuerySet rows) = rows"
| "records (SlicedQuerySet rows) = rows"

text \<open>\<^verbatim>\<open>query.can_filter()\<close>: false once a slice has been taken. A manager filters the
  fresh query set of \<^verbatim>\<open>get_query_set()\<close>, which can always be filtered.\<close>

fun can_filter :: "collection \<Rightarrow> bool" where
  "can_filter (Manager rows) = True"
| "can_filter (QuerySet rows) = True"
| "can_filter (SlicedQuerySet rows) = False"

text \<open>The two keyword lookups the module passes to \<^verbatim>\<open>filter\<close>. The value of
  \<^verbatim>\<open>access_level__lte\<close> is whatever the caller computed, Python's \<^verbatim>\<open>None\<close> included.\<close>

datatype lookup = Is_published bool | Access_level_lte "int option"

text \<open>The argument of \<^verbatim>\<open>access_level_up_to\<close>: an integer rank or a tier name.\<close>

datatype level = PyInt int | PyStr string

text \<open>Actors. An anonymous visitor is never a superuser and never authenticated and
  has no groups; a user row is always authenticated.\<close>

record auth_group =
  group_id :: int
  group_name :: string

datatype user = AnonymousUser | User bool "auth_group list"

fun is_superuser :: "user \<Rightarrow> bool" where
  "is_superuser AnonymousUser = False"
| "is_superuser (User su gs) = su"

fun is_authenticated :: "user \<Rightarrow> bool" where
  "is_authenticated AnonymousUser = False"
| "is_authenticated (User su gs) = True"

fun groups :: "user \<Rightarrow> auth_group list" where
  "groups AnonymousUser = []"
| "groups (User su gs) = gs"

text \<open>The argument of \<^verbatim>\<open>accessible_to\<close>: a user instance or an integer user id.\<close>

datatype actor = Obj user | Id int

subsection \<open>The mapper's operations the module calls\<close>

text \<open>
  \<^verbatim>\<open>QuerySet.filter\<close> first asserts that the query set can be filtered, then adds the
  lookup to a clone of the query. \<open>add_filter\<close> is that second step: a comparison lookup
  whose value is \<^verbatim>\<open>None\<close> is rejected, any other lookup keeps the rows that satisfy it.
\<close>

fun add_filter :: "item list \<Rightarrow> lookup \<Rightarrow> error + collection" where
  "add_filter rows (Is_published b) = Inr (QuerySet [r \<leftarrow> rows. is_published r = b])"
| "add_filter rows (Access_level_lte None) = Inl ValueError"
| "add_filter rows (Access_level_lte (Some v)) = Inr (QuerySet [r \<leftarrow> rows. access_level r \<le> v])"

text \<open>Every manager of the module defines \<^verbatim>\<open>get_query_set\<close> as the query set of all rows
  of its model (lines 132, 139, 152, ...); a query set has no such attribute.\<close>

fun get_query_set :: "collection \<Rightarrow> error + collection" where
  "get_query_set (Manager rows) = Inr (QuerySet rows)"
| "get_query_set (QuerySet rows) = Inl AttributeError"
| "get_query_set (SlicedQuerySet rows) = Inl AttributeError"

text \<open>\<^verbatim>\<open>self.filter(...)\<close>: a manager forwards to its query set; a sliced query set
  fails the assertion before the lookup is looked at.\<close>

fun filter_qs :: "collection \<Rightarrow> lookup \<Rightarrow> error + collection" where
  "filter_qs (Manager rows) lk = add_filter rows lk"
| "filter_qs (QuerySet rows) lk = add_filter rows lk"
| "filter_qs (SlicedQuerySet rows) lk = Inl AssertionError"

text \<open>Method chaining \<^verbatim>\<open>a.f().g()\<close>: an exception of the first call is the outcome.\<close>

fun chain :: "error + 'a \<Rightarrow> ('a \<Rightarrow> error + 'b) \<Rightarrow> error + 'b" where
  "chain (Inl e) f = Inl e"
| "chain (Inr x) f = f x"

text \<open>\<^verbatim>\<open>order_by('-id')\<close> on the groups of a user, and \<^verbatim>\<open>[0]\<close> on the outcome.\<close>

definition order_by_minus_id :: "auth_group list \<Rightarrow> auth_group list" where
  "order_by_minus_id gs = sort_key (\<lambda>g. - group_id g) gs"

fun first_item :: "'a list \<Rightarrow> error + 'a" where
  "first_item [] = Inl IndexError"
| "first_item (x # xs) = Inr x"

text \<open>\<^verbatim>\<open>User.objects.get(pk=...)\<close>. The name \<^verbatim>\<open>User\<close> is bound only when the process is
  neither \<^verbatim>\<open>synchronize\<close> nor \<^verbatim>\<open>celery\<close>; \<open>None\<close> stands for the unbound name.\<close>

fun objects_get :: "(int \<rightharpoonup> user) option \<Rightarrow> int \<Rightarrow> error + user" where
  "objects_get None i = Inl NameError"
| "objects_get (Some tbl) i = (case tbl i of None \<Rightarrow> Inl DoesNotExist | Some u \<Rightarrow> Inr u)"

subsection \<open>PublishedMixin and ACLMixin\<close>

text \<open>\<^verbatim>\<open>ACCESS_LEVELS\<close> is imported from \<^verbatim>\<open>nodeshot.core.base.choices\<close>; it is a parameter
  here, a dictionary from tier name to rank, read with \<^verbatim>\<open>.get\<close>.\<close>

definition published :: "collection \<Rightarrow> error + collection" where
  "published self = filter_qs self (Is_published True)"

definition access_level_up_to ::
  "(string \<rightharpoonup> int) \<Rightarrow> collection \<Rightarrow> level \<Rightarrow> error + collection" where
  "access_level_up_to ACCESS_LEVELS self lvl =
     (let v = (case lvl of PyInt n \<Rightarrow> Some n | PyStr s \<Rightarrow> ACCESS_LEVELS s)
      in filter_qs self (Access_level_lte v))"

definition accessible_to ::
  "(int \<rightharpoonup> user) option \<Rightarrow> (string \<rightharpoonup> int) \<Rightarrow> collection \<Rightarrow> actor \<Rightarrow> error + collection" where
  "accessible_to Users ACCESS_LEVELS self arg =
     chain (case arg of Id i \<Rightarrow> objects_get Users i | Obj u \<Rightarrow> Inr u)
       (\<lambda>u.
          if is_superuser u then
            (case get_query_set self of
               Inr qs \<Rightarrow> Inr qs
             | Inl AttributeError \<Rightarrow> Inr self
             | Inl e \<Rightarrow> Inl e)
          else if is_authenticated u then
            chain (first_item (order_by_minus_id (groups u)))
              (\<lambda>g. filter_qs self (Access_level_lte (ACCESS_LEVELS (group_name g))))
          else filter_qs self (Access_level_lte (ACCESS_LEVELS ''public'')))"

subsection \<open>ExtendedManagerMixin\<close>

text \<open>
  An object is seen through the names its attribute lookup finds. The builtin
  \<^verbatim>\<open>getattr(obj, name, *args)\<close> takes at most one default, returned in place of
  \<^verbatim>\<open>AttributeError\<close>.
\<close>

definition py_getattr :: "(string \<rightharpoonup> 'v) \<Rightarrow> string \<Rightarrow> 'v list \<Rightarrow> error + 'v" where
  "py_getattr ns attr args =
     (if length args > 1 then Inl TypeError
      else case ns attr of
             Some v \<Rightarrow> Inr v
           | None \<Rightarrow> (case args of [] \<Rightarrow> Inl AttributeError | d # ds \<Rightarrow> Inr d))"

text \<open>A manager object: what ordinary lookup on the instance finds, what lookup on its
  class object finds, and the names of the query set \<^verbatim>\<open>get_query_set()\<close> returns.\<close>

record 'v manager =
  instance_attrs :: "string \<rightharpoonup> 'v"
  class_attrs :: "string \<rightharpoonup> 'v"
  query_set_attrs :: "string \<rightharpoonup> 'v"

definition getattr_hook :: "'v manager \<Rightarrow> string \<Rightarrow> 'v list \<Rightarrow> error + 'v" where
  "getattr_hook self attr args =
     (case py_getattr (class_attrs self) attr args of
        Inl AttributeError \<Rightarrow> py_getattr (query_set_attrs self) attr args
      | r \<Rightarrow> r)"

text \<open>\<^verbatim>\<open>manager.name\<close>: Python calls \<^verbatim>\<open>__getattr__(name)\<close> only after ordinary lookup failed.\<close>

definition lookup_attr :: "'v manager \<Rightarrow> string \<Rightarrow> error + 'v" where
  "lookup_attr self attr =
     (case instance_attrs self attr of
        Some v \<Rightarrow> Inr v
      | None \<Rightarrow> getattr_hook self attr [])"

subsection \<open>The enumeration and collection used in the examples\<close>

definition example_levels :: "string \<rightharpoonup> int" where
  "example_levels =
     [''public'' \<mapsto> 0, ''community'' \<mapsto> 10, ''member'' \<mapsto> 20, ''admin'' \<mapsto> 30]"

definition example_rows :: "item list" where
  "example_rows =
     [\<lparr>pk = 1, is_published = True, access_level = 0\<rparr>,
      \<lparr>pk = 2, is_published = False, access_level = 10\<rparr>,
      \<lparr>pk = 3, is_published = True, access_level = 20\<rparr>,
      \<lparr>pk = 4, is_published = True, access_level = 30\<rparr>]"


section \<open>Properties\<close>

subsection \<open>Helper facts\<close>

lemma filter_qs_can_filter:
  "can_filter self \<Longrightarrow> filter_qs self lk = add_filter (records self) lk"
  by (cases self) simp_all

lemma filter_qs_sliced: "\<not> can_filter self \<Longrightarrow> filter_qs self lk = Inl AssertionError"
  by (cases self) simp_all

lemma published_eq:
  "can_filter self \<Longrightarrow> published self = Inr (QuerySet [r \<leftarrow> records self. is_published r])"
  by (simp add: published_def filter_qs_can_filter)

lemma published_sliced: "\<not> can_filter self \<Longrightarrow> published self = Inl AssertionError"
  by (simp add: published_def filter_qs_sliced)

lemma access_level_up_to_int:
  "can_filter self \<Longrightarrow>
   access_level_up_to L self (PyInt n) = Inr (QuerySet [r \<leftarrow> records self. access_level r \<le> n])"
  by (simp add: access_level_up_to_def filter_qs_can_filter)

lemma access_level_up_to_name:
  "can_filter self \<Longrightarrow>
   access_level_up_to L self (PyStr s) = add_filter (records self) (Access_level_lte (L s))"
  by (simp add: access_level_up_to_def filter_qs_can_filter)

lemma access_level_up_to_sliced:
  "\<not> can_filter self \<Longrightarrow> access_level_up_to L self lvl = Inl AssertionError"
  by (simp add: access_level_up_to_def filter_qs_sliced)

lemma first_item_order_by:
  assumes "g \<in> set gs"
    and "\<forall>g' \<in> set gs. g' \<noteq> g \<longrightarrow> group_id g' < group_id g"
  shows "first_item (order_by_minus_id gs) = Inr g"
proof (cases "order_by_minus_id gs")
  case Nil
  then have "set (order_by_minus_id gs) = {}" by simp
  then have "set gs = {}" by (simp add: order_by_minus_id_def)
  with assms(1) show ?thesis by simp
next
  case (Cons h hs)
  have srt: "sorted (map (\<lambda>g. - group_id g) (h # hs))"
    using Cons sorted_sort_key [of "\<lambda>g. - group_id g" gs]
    by (simp add: order_by_minus_id_def)
  have mem: "set (h # hs) = set gs"
    using Cons set_sort [of "\<lambda>g. - group_id g" gs]
    by (simp add: order_by_minus_id_def)
  then have hin: "h \<in> set gs" by auto
  have "g \<in> set (h # hs)" using mem assms(1) by simp
  then have "group_id g \<le> group_id h" using srt by auto
  with assms(2) hin have "h = g" by force
  with Cons show ?thesis by simp
qed

lemma unauthenticated_not_superuser: "\<not> is_authenticated u \<Longrightarrow> \<not> is_superuser u"
  by (cases u) simp_all

text \<open>An integer id that resolves to a user behaves as that user passed directly; an
  id with no row fails before any filtering.\<close>

lemma accessible_to_Id:
  "tbl i = Some u \<Longrightarrow>
   accessible_to (Some tbl) L self (Id i) = accessible_to (Some tbl) L self (Obj u)"
  by (simp add: accessible_to_def)

lemma accessible_to_Id_missing:
  "tbl i = None \<Longrightarrow> accessible_to (Some tbl) L self (Id i) = Inl DoesNotExist"
  by (simp add: accessible_to_def)

subsection \<open>access_level_up_to and published\<close>

text \<open>
  C1, as stated for every collection, fails on a sliced query set: the first two rows of
  the example table, asked for everything up to rank 30, give no output but the
  mapper's \<open>AssertionError\<close>.
\<close>

theorem acl_up_to_sliced_counterexample:
  "access_level_up_to example_levels (SlicedQuerySet (take 2 example_rows)) (PyInt 30) =
     Inl AssertionError"
  by (simp add: access_level_up_to_def)

text \<open>
  C1, amended. Let the rank \<open>n\<close> be given as an integer, or as a tier name that
  \<open>ACCESS_LEVELS\<close> maps to \<open>n\<close>. On a collection that can be filtered (a manager, or a
  query set of which no slice has been taken) \<^verbatim>\<open>access_level_up_to\<close> returns a query set
  whose rows are the rows of the collection with \<open>access_level \<le> n\<close>, in their order: a
  record is in the output iff it is in the collection and its level is at most \<open>n\<close>,
  and a record of the collection whose level is \<open>n\<close> itself is in the output. On a
  sliced query set the call raises \<open>AssertionError\<close>.
\<close>

theorem acl_up_to_exact_rows:
  assumes "lvl = PyInt n \<or> (\<exists>s. lvl = PyStr s \<and> ACCESS_LEVELS s = Some n)"
  shows "(can_filter self \<longrightarrow>
           (\<exists>out. access_level_up_to ACCESS_LEVELS self lvl = Inr (QuerySet out)
              \<and> out = [r \<leftarrow> records self. access_level r \<le> n]
              \<and> (\<forall>r. r \<in> set out \<longleftrightarrow> r \<in> set (records self) \<and> access_level r \<le> n)
              \<and> (\<forall>r. r \<in> set (records self) \<and> access_level r = n \<longrightarrow> r \<in> set out)))
       \<and> (\<not> can_filter self \<longrightarrow>
           access_level_up_to ACCESS_LEVELS self lvl = Inl AssertionError)"
proof (cases "can_filter self")
  case True
  with assms show ?thesis
    by (auto simp: access_level_up_to_int access_level_up_to_name)
next
  case False
  then show ?thesis by (simp add: access_level_up_to_sliced)
qed

theorem acl_up_to_exact_rows_witness:
  "example_levels ''member'' = Some 20 \<and>
   can_filter (Manager example_rows) \<and>
   access_level_up_to example_levels (Manager example_rows) (PyStr ''member'') =
     Inr (QuerySet [\<lparr>pk = 1, is_published = True, access_level = 0\<rparr>,
                    \<lparr>pk = 2, is_published = False, access_level = 10\<rparr>,
                    \<lparr>pk = 3, is_published = True, access_level = 20\<rparr>]) \<and>
   \<not> can_filter (SlicedQuerySet example_rows) \<and>
   access_level_up_to example_levels (SlicedQuerySet example_rows) (PyStr ''member'') =
     Inl AssertionError"
proof -
  have h: "example_levels ''member'' = Some 20" by (simp add: example_levels_def)
  from acl_up_to_exact_rows [of "PyStr ''member''" 20 example_levels "Manager example_rows"]
    acl_up_to_exact_rows [of "PyStr ''member''" 20 example_levels "SlicedQuerySet example_rows"]
    h
  show ?thesis by (auto simp: example_rows_def)
qed

text \<open>
  C2, as stated ("never fails"), fails on a sliced query set: \<^verbatim>\<open>published\<close> on the first
  two rows of the example table raises \<open>AssertionError\<close>.
\<close>

theorem published_sliced_counterexample:
  "published (SlicedQuerySet (take 2 example_rows)) = Inl AssertionError"
  by (simp add: published_def)

text \<open>
  C2, amended. On a collection that can be filtered (a manager, or a query set of which
  no slice has been taken) \<^verbatim>\<open>published\<close> does not fail: it returns a query set whose
  rows are the rows of the collection with \<open>is_published\<close> true, in their order; a
  record is in the output iff it is in the collection and is published, and when no
  record of the collection is published the output is the empty query set. On a sliced
  query set the call raises \<open>AssertionError\<close>.
\<close>

theorem published_exact_rows:
  "(can_filter self \<longrightarrow>
      (\<exists>out. published self = Inr (QuerySet out)
         \<and> out = [r \<leftarrow> records self. is_published r]
         \<and> (\<forall>r. r \<in> set out \<longleftrightarrow> r \<in> set (records self) \<and> is_published r)
         \<and> ((\<forall>r \<in> set (records self). \<not> is_published r) \<longrightarrow> out = [])))
   \<and> (\<not> can_filter self \<longrightarrow> published self = Inl AssertionError)"
proof (cases "can_filter self")
  case True
  then show ?thesis by (auto simp: published_eq filter_empty_conv)
next
  case False
  then show ?thesis by (simp add: published_sliced)
qed

theorem published_exact_rows_witness:
  "published (QuerySet [\<lparr>pk = 2, is_published = False, access_level = 10\<rparr>]) = Inr (QuerySet [])
   \<and> published (Manager example_rows) =
       Inr (QuerySet [\<lparr>pk = 1, is_published = True, access_level = 0\<rparr>,
                      \<lparr>pk = 3, is_published = True, access_level = 20\<rparr>,
                      \<lparr>pk = 4, is_published = True, access_level = 30\<rparr>])
   \<and> published (SlicedQuerySet example_rows) = Inl AssertionError"
  using published_exact_rows [of "QuerySet [\<lparr>pk = 2, is_published = False, access_level = 10\<rparr>]"]
    published_exact_rows [of "Manager example_rows"]
    published_exact_rows [of "SlicedQuerySet example_rows"]
  by (auto simp: example_rows_def)

text \<open>
  C3, as stated for every collection, fails on a sliced query set: there the call with
  an unknown tier name does fail, but with the \<open>AssertionError\<close> of the slice, raised
  before the value of the lookup is examined, and not with the error of the unknown
  name.
\<close>

theorem acl_up_to_unknown_tier_sliced_counterexample:
  "example_levels ''galactic-admin'' = None \<and>
   access_level_up_to example_levels (SlicedQuerySet (take 2 example_rows))
     (PyStr ''galactic-admin'') = Inl AssertionError \<and>
   access_level_up_to example_levels (SlicedQuerySet (take 2 example_rows))
     (PyStr ''galactic-admin'') \<noteq> Inl ValueError"
  by (simp add: access_level_up_to_def example_levels_def)

text \<open>
  C3, amended. Let the string \<open>s\<close> be no key of \<open>ACCESS_LEVELS\<close>. On a collection that
  can be filtered (a manager, or a query set of which no slice has been taken)
  \<^verbatim>\<open>access_level_up_to\<close> fails with the error of the unknown tier: the dictionary lookup
  (\<^verbatim>\<open>.get\<close>) returns \<^verbatim>\<open>None\<close> without raising, and the mapper raises \<open>ValueError\<close> for the
  \<^verbatim>\<open>None\<close> comparison value when line 43 builds the filter. On a sliced query set the
  call fails with \<open>AssertionError\<close>. In both cases no query set is returned.
\<close>

theorem acl_up_to_unknown_tier_fails:
  assumes "ACCESS_LEVELS s = None"
  shows "(can_filter self \<longrightarrow>
            access_level_up_to ACCESS_LEVELS self (PyStr s) = Inl ValueError)
       \<and> (\<not> can_filter self \<longrightarrow>
            access_level_up_to ACCESS_LEVELS self (PyStr s) = Inl AssertionError)"
  using assms by (simp add: access_level_up_to_name access_level_up_to_sliced)

theorem acl_up_to_unknown_tier_fails_witness:
  "example_levels ''galactic-admin'' = None \<and>
   access_level_up_to example_levels (Manager example_rows) (PyStr ''galactic-admin'') =
     Inl ValueError \<and>
   access_level_up_to example_levels (SlicedQuerySet example_rows) (PyStr ''galactic-admin'') =
     Inl AssertionError"
proof -
  have h: "example_levels ''galactic-admin'' = None" by (simp add: example_levels_def)
  from acl_up_to_unknown_tier_fails
         [of example_levels "''galactic-admin''" "Manager example_rows"]
       acl_up_to_unknown_tier_fails
         [of example_levels "''galactic-admin''" "SlicedQuerySet example_rows"] h
  show ?thesis by simp
qed

text \<open>
  C10, as stated ("no error is ever raised for integer input"), fails on a sliced query
  set: the integer 15 on the first three rows of the example table raises
  \<open>AssertionError\<close>.
\<close>

theorem integer_rank_sliced_counterexample:
  "access_level_up_to example_levels (SlicedQuerySet (take 3 example_rows)) (PyInt 15) =
     Inl AssertionError"
  by (simp add: access_level_up_to_def)

text \<open>
  C10, amended. An integer argument is used as the rank as it is; \<open>ACCESS_LEVELS\<close> is
  not consulted. On a collection that can be filtered (a manager, or a query set of
  which no slice has been taken), for every enumeration and every integer \<open>n\<close>, the
  rank of a tier or not, the call raises nothing and returns the query set of the rows
  with \<open>access_level \<le> n\<close>. On a sliced query set it raises \<open>AssertionError\<close>, for every
  integer alike.
\<close>

theorem integer_rank_unvalidated:
  "(can_filter self \<longrightarrow>
      (\<exists>out. access_level_up_to ACCESS_LEVELS self (PyInt n) = Inr (QuerySet out)
         \<and> out = [r \<leftarrow> records self. access_level r \<le> n]))
   \<and> (\<not> can_filter self \<longrightarrow>
      access_level_up_to ACCESS_LEVELS self (PyInt n) = Inl AssertionError)"
  by (simp add: access_level_up_to_int access_level_up_to_sliced)

theorem integer_rank_unvalidated_witness:
  "access_level_up_to example_levels (Manager example_rows) (PyInt (-5)) = Inr (QuerySet []) \<and>
   access_level_up_to example_levels (Manager example_rows) (PyInt 15) =
     Inr (QuerySet [\<lparr>pk = 1, is_published = True, access_level = 0\<rparr>,
                    \<lparr>pk = 2, is_published = False, access_level = 10\<rparr>]) \<and>
   access_level_up_to example_levels (SlicedQuerySet example_rows) (PyInt (-5)) =
     Inl AssertionError"
  using integer_rank_unvalidated [of "Manager example_rows" example_levels "-5"]
    integer_rank_unvalidated [of "Manager example_rows" example_levels 15]
    integer_rank_unvalidated [of "SlicedQuerySet example_rows" example_levels "-5"]
  by (simp add: example_rows_def)

text \<open>
  C8. \<^verbatim>\<open>published().access_level_up_to(level)\<close> and
  \<^verbatim>\<open>access_level_up_to(level).published()\<close> have the same outcome for every collection and
  every level: the same query set (same rows, same order) when the level resolves to a
  rank, and the same exception when it does not or when the collection is sliced.
\<close>

theorem published_acl_commute:
  "chain (published self) (\<lambda>qs. access_level_up_to ACCESS_LEVELS qs lvl) =
   chain (access_level_up_to ACCESS_LEVELS self lvl) published"
proof (cases "can_filter self")
  case False
  then show ?thesis by (simp add: published_sliced access_level_up_to_sliced)
next
  case True
  show ?thesis
  proof (cases "case lvl of PyInt n \<Rightarrow> Some n | PyStr s \<Rightarrow> ACCESS_LEVELS s")
    case None
    with True show ?thesis
      by (simp add: published_eq access_level_up_to_def filter_qs_can_filter)
  next
    case (Some v)
    have "[r \<leftarrow> [r \<leftarrow> records self. is_published r]. access_level r \<le> v] =
          [r \<leftarrow> [r \<leftarrow> records self. access_level r \<le> v]. is_published r]"
      by (simp add: conj_commute)
    with Some True show ?thesis
      by (simp add: published_eq published_def access_level_up_to_def filter_qs_can_filter)
  qed
qed

theorem published_acl_commute_witness:
  "chain (published (Manager example_rows))
     (\<lambda>qs. access_level_up_to example_levels qs (PyInt 20)) =
     Inr (QuerySet [\<lparr>pk = 1, is_published = True, access_level = 0\<rparr>,
                    \<lparr>pk = 3, is_published = True, access_level = 20\<rparr>]) \<and>
   chain (access_level_up_to example_levels (Manager example_rows) (PyInt 20)) published =
     Inr (QuerySet [\<lparr>pk = 1, is_published = True, access_level = 0\<rparr>,
                    \<lparr>pk = 3, is_published = True, access_level = 20\<rparr>])"
  using published_acl_commute [of "Manager example_rows" example_levels "PyInt 20"]
  by (simp add: published_eq access_level_up_to_int example_rows_def)

subsection \<open>accessible_to\<close>

text \<open>
  C4. For a superuser, \<^verbatim>\<open>accessible_to\<close> returns every row of the collection: a manager
  answers with its \<^verbatim>\<open>get_query_set()\<close>, a query set, sliced or not, answers with itself.
  No filter is applied and \<open>ACCESS_LEVELS\<close> and the user's groups are not read.
\<close>

theorem superuser_sees_all:
  assumes "is_superuser u"
  shows "accessible_to Users ACCESS_LEVELS self (Obj u) =
           Inr (case self of Manager rows \<Rightarrow> QuerySet rows | qs \<Rightarrow> qs)
       \<and> (\<exists>out. accessible_to Users ACCESS_LEVELS self (Obj u) = Inr out
             \<and> records out = records self)
       \<and> (can_filter self \<longrightarrow>
             accessible_to Users ACCESS_LEVELS self (Obj u) = Inr (QuerySet (records self)))"
  using assms by (cases self) (simp_all add: accessible_to_def)

theorem superuser_sees_all_witness:
  "is_superuser (User True []) \<and>
   accessible_to None example_levels (Manager example_rows) (Obj (User True [])) =
     Inr (QuerySet example_rows) \<and>
   accessible_to None example_levels (QuerySet example_rows) (Obj (User True [])) =
     Inr (QuerySet example_rows) \<and>
   accessible_to None example_levels (SlicedQuerySet example_rows) (Obj (User True [])) =
     Inr (SlicedQuerySet example_rows)"
  using superuser_sees_all [of "User True []" None example_levels "Manager example_rows"]
    superuser_sees_all [of "User True []" None example_levels "QuerySet example_rows"]
    superuser_sees_all [of "User True []" None example_levels "SlicedQuerySet example_rows"]
  by simp

text \<open>
  C5, as stated for every collection, fails on a sliced query set: for a user whose
  only group is \<open>community\<close> the call on the first two rows of the example table
  returns no records but raises \<open>AssertionError\<close>.
\<close>

theorem highest_group_id_sliced_counterexample:
  "accessible_to None example_levels (SlicedQuerySet (take 2 example_rows))
     (Obj (User False [\<lparr>group_id = 2, group_name = ''community''\<rparr>])) = Inl AssertionError"
  by (simp add: accessible_to_def order_by_minus_id_def)

text \<open>
  C5, amended. Let the user be authenticated, not a superuser, with at least one group,
  and let \<open>g\<close> be the group with the highest id among the user's groups (group ids are
  primary keys, so \<open>g\<close> is the one group whose id is above all others), whose name
  \<open>ACCESS_LEVELS\<close> maps to the rank \<open>n\<close>. On a collection that can be filtered (a manager,
  or a query set of which no slice has been taken) the result is the query set of the
  rows with \<open>access_level \<le> n\<close>, whatever the ranks of the user's other groups. On a
  sliced query set the call raises \<open>AssertionError\<close>.
\<close>

theorem highest_group_id_decides:
  assumes "\<not> is_superuser u" and "is_authenticated u"
    and "g \<in> set (groups u)"
    and "\<forall>g' \<in> set (groups u). g' \<noteq> g \<longrightarrow> group_id g' < group_id g"
    and "ACCESS_LEVELS (group_name g) = Some n"
  shows "(can_filter self \<longrightarrow>
           (\<exists>out. accessible_to Users ACCESS_LEVELS self (Obj u) = Inr (QuerySet out)
              \<and> out = [r \<leftarrow> records self. access_level r \<le> n]
              \<and> (\<forall>r. r \<in> set out \<longleftrightarrow> r \<in> set (records self) \<and> access_level r \<le> n)))
       \<and> (\<not> can_filter self \<longrightarrow>
           accessible_to Users ACCESS_LEVELS self (Obj u) = Inl AssertionError)"
proof (cases "can_filter self")
  case True
  with assms show ?thesis
    by (auto simp: accessible_to_def first_item_order_by filter_qs_can_filter)
next
  case False
  with assms show ?thesis
    by (simp add: accessible_to_def first_item_order_by filter_qs_sliced)
qed

text \<open>The example: the user is in the group \<open>admin\<close> (id 1, rank 30) and in the group
  \<open>community\<close> (id 2, rank 10); the rows returned are those up to rank 10.\<close>

theorem highest_group_id_decides_witness:
  "accessible_to None example_levels (Manager example_rows)
       (Obj (User False [\<lparr>group_id = 1, group_name = ''admin''\<rparr>,
                         \<lparr>group_id = 2, group_name = ''community''\<rparr>]))
   = Inr (QuerySet [\<lparr>pk = 1, is_published = True, access_level = 0\<rparr>,
                    \<lparr>pk = 2, is_published = False, access_level = 10\<rparr>]) \<and>
   accessible_to None example_levels (SlicedQuerySet example_rows)
       (Obj (User False [\<lparr>group_id = 1, group_name = ''admin''\<rparr>,
                         \<lparr>group_id = 2, group_name = ''community''\<rparr>]))
   = Inl AssertionError"
  using highest_group_id_decides
      [of "User False [\<lparr>group_id = 1, group_name = ''admin''\<rparr>,
                       \<lparr>group_id = 2, group_name = ''community''\<rparr>]"
          "\<lparr>group_id = 2, group_name = ''community''\<rparr>"
          example_levels 10 "Manager example_rows" None]
    highest_group_id_decides
      [of "User False [\<lparr>group_id = 1, group_name = ''admin''\<rparr>,
                       \<lparr>group_id = 2, group_name = ''community''\<rparr>]"
          "\<lparr>group_id = 2, group_name = ''community''\<rparr>"
          example_levels 10 "SlicedQuerySet example_rows" None]
  by (auto simp: example_levels_def example_rows_def)

text \<open>
  C6. For an actor that is not authenticated, \<^verbatim>\<open>accessible_to\<close> has the outcome of
  \<^verbatim>\<open>access_level_up_to("public")\<close> on the same collection: the filter
  \<open>access_level \<le> ACCESS_LEVELS.get("public")\<close>.
\<close>

theorem anonymous_is_public:
  assumes "\<not> is_authenticated u"
  shows "accessible_to Users ACCESS_LEVELS self (Obj u) =
           access_level_up_to ACCESS_LEVELS self (PyStr ''public'')
         \<and> accessible_to Users ACCESS_LEVELS self (Obj u) =
           filter_qs self (Access_level_lte (ACCESS_LEVELS ''public''))"
  using assms unauthenticated_not_superuser [OF assms]
  by (simp add: accessible_to_def access_level_up_to_def)

theorem anonymous_is_public_witness:
  "\<not> is_authenticated AnonymousUser \<and>
   accessible_to None example_levels (Manager example_rows) (Obj AnonymousUser) =
     access_level_up_to example_levels (Manager example_rows) (PyStr ''public'') \<and>
   accessible_to None example_levels (Manager example_rows) (Obj AnonymousUser) =
     Inr (QuerySet [\<lparr>pk = 1, is_published = True, access_level = 0\<rparr>])"
  using anonymous_is_public [of AnonymousUser None example_levels "Manager example_rows"]
  by (simp add: access_level_up_to_name example_levels_def example_rows_def)

text \<open>
  C7. For an authenticated user who is not a superuser and has no group, \<^verbatim>\<open>accessible_to\<close>
  fails with \<open>IndexError\<close> (index 0 of the empty, ordered group query set, line 63). No
  query set is returned and the public tier is not consulted.
\<close>

theorem no_groups_index_error:
  assumes "\<not> is_superuser u" and "is_authenticated u" and "groups u = []"
  shows "accessible_to Users ACCESS_LEVELS self (Obj u) = Inl IndexError"
  using assms by (simp add: accessible_to_def order_by_minus_id_def)

theorem no_groups_index_error_witness:
  "\<not> is_superuser (User False []) \<and> is_authenticated (User False []) \<and>
   groups (User False []) = [] \<and>
   accessible_to None example_levels (Manager example_rows) (Obj (User False [])) =
     Inl IndexError"
  using no_groups_index_error [of "User False []" None example_levels "Manager example_rows"]
  by simp

subsection \<open>Attribute forwarding\<close>

text \<open>
  C9. A name that ordinary lookup on the manager does not find, and that lookup on the
  manager's class does not find either, is looked up on the query set returned by
  \<^verbatim>\<open>get_query_set()\<close>: the manager's answer is that lookup's answer, value or
  \<open>AttributeError\<close>, unchanged.
\<close>

theorem unrecognized_attr_delegates:
  assumes "instance_attrs self attr = None" and "class_attrs self attr = None"
  shows "lookup_attr self attr = py_getattr (query_set_attrs self) attr []"
  using assms by (simp add: lookup_attr_def getattr_hook_def py_getattr_def)

theorem unrecognized_attr_delegates_witness:
  "lookup_attr \<lparr>instance_attrs = [''filter'' \<mapsto> ''Manager.filter''],
                class_attrs = [''filter'' \<mapsto> ''Manager.filter''],
                query_set_attrs = [''filter'' \<mapsto> ''QuerySet.filter'',
                                   ''ordered'' \<mapsto> ''QuerySet.ordered'']\<rparr>
      ''ordered'' = Inr ''QuerySet.ordered''"
  using unrecognized_attr_delegates
      [of "\<lparr>instance_attrs = [''filter'' \<mapsto> ''Manager.filter''],
            class_attrs = [''filter'' \<mapsto> ''Manager.filter''],
            query_set_attrs = [''filter'' \<mapsto> ''QuerySet.filter'',
                               ''ordered'' \<mapsto> ''QuerySet.ordered'']\<rparr>" "''ordered''"]
  by (simp add: py_getattr_def)

end
